theory Spec2Isabelle
  imports Main "HOL-Library.Sublist"
begin

section \<open>Errors, formatting and logging\<close>

text \<open>
  Go errors are values compared by identity. The sentinels the program tests for
  (\<open>git.ErrRepositoryNotExists\<close>, \<open>git.ErrWorktreeNotProvided\<close>) and the two
  sentinels \<open>filepath.Walk\<close> gives a meaning to are constructors of their own.
  \<open>LibError\<close> is any other error handed back by a library or the operating system,
  \<open>Errorf\<close> an error this program builds with \<open>fmt.Errorf\<close>; both carry their message.
\<close>

datatype error =
    ErrRepositoryNotExists
  | ErrWorktreeNotProvided
  | SkipDir
  | SkipAll
  | LibError string
  | Errorf string

text \<open>\<open>err.Error()\<close>, which is what the verb \<open>%v\<close> prints.\<close>

fun Error :: "error \<Rightarrow> string" where
  "Error ErrRepositoryNotExists = ''repository does not exist''"
| "Error ErrWorktreeNotProvided = ''worktree should be provided''"
| "Error SkipDir = ''skip this directory''"
| "Error SkipAll = ''skip everything and stop the walk''"
| "Error (LibError m) = m"
| "Error (Errorf m) = m"

text \<open>
  A function that can panic returns an \<open>outcome\<close>: \<open>Panic\<close> ends the process, \<open>Return\<close>
  carries what the function hands back.
\<close>

datatype 'a outcome = Return 'a | Panic error

text \<open>
  The verb \<open>%d\<close>: decimal digits, with a minus sign for a negative number. Go's \<open>int\<close>
  has 64 bits; the counter below is bounded by the number of entries of a directory
  tree, far from \<open>2 ^ 63\<close>, so it is an unbounded \<open>int\<close> here.
\<close>

fun string_of_nat :: "nat \<Rightarrow> string" where
  "string_of_nat n =
     (if n < 10 then [''0123456789'' ! n]
      else string_of_nat (n div 10) @ [''0123456789'' ! (n mod 10)])"

declare string_of_nat.simps [simp del]

definition string_of_int :: "int \<Rightarrow> string" where
  "string_of_int i = (if i < 0 then ''-'' @ string_of_nat (nat (- i)) else string_of_nat (nat i))"

text \<open>
  \<open>fmt.Sprintf\<close> for the formats of this program: every verb is a percent sign and one
  letter (\<open>%d\<close>, \<open>%v\<close>) and takes the next argument, already rendered.
\<close>

fun Sprintf :: "string \<Rightarrow> string list \<Rightarrow> string" where
  "Sprintf [] args = []"
| "Sprintf [c] args = [c]"
| "Sprintf (c # v # fs) [] = c # Sprintf (v # fs) []"
| "Sprintf (c # v # fs) (a # as) =
     (if c = CHR ''%'' then a @ Sprintf fs as else c # Sprintf (v # fs) (a # as))"

definition maxFilesErrorMessage :: string where
  "maxFilesErrorMessage = ''too many files (%d), limit is %d''"

definition gitConfigUserSection :: string where
  "gitConfigUserSection = ''user''"

datatype log_record = LogInfo string | LogError string error

section \<open>Data model\<close>

record AuthorInfo =
  Name :: string
  Email :: string

record Options =
  LogFormat :: string
  Verbose :: "bool list"
  RootDir :: string
  MaxFiles :: int
  GitConfig :: string
  logLevel :: int

text \<open>\<open>object.Signature\<close>: who made a commit, and when.\<close>

record Signature =
  SigName :: string
  SigEmail :: string
  When :: nat

text \<open>
  The calls that change a repository, in the order the program makes them:
  \<open>git.PlainInit(path, isBare)\<close>, \<open>worktree.Add(path)\<close> on the repository at a root, and
  \<open>worktree.Commit(message, options)\<close> with the author of the options.
\<close>

datatype git_op =
    OpPlainInit string bool
  | OpAdd string string
  | OpCommit string string Signature

text \<open>
  What a run changes: the package variable \<open>authorInfo\<close>, the repository (as the list of
  calls made on it) and the log.
\<close>

record state =
  authorInfo :: AuthorInfo
  git_ops :: "git_op list"
  logs :: "log_record list"

definition slog_Info :: "string \<Rightarrow> state \<Rightarrow> state" where
  "slog_Info msg s = s\<lparr>logs := logs s @ [LogInfo msg]\<rparr>"

definition slog_Error :: "string \<Rightarrow> error \<Rightarrow> state \<Rightarrow> state" where
  "slog_Error msg e s = s\<lparr>logs := logs s @ [LogError msg e]\<rparr>"

section \<open>The world outside the program\<close>

text \<open>
  A directory tree as \<open>filepath.Walk\<close> meets it: a file (any entry that is not a
  directory), a directory with its entries in the order \<open>readDirNames\<close> lists them, a
  directory whose listing fails, and an entry whose \<open>lstat\<close> fails. The two failures
  carry the message of the operating system's error.
\<close>

datatype node =
    File
  | Dir "node list"
  | DirUnreadable string
  | LstatFails string

text \<open>
  An INI file as \<open>ini.v1\<close> presents it once loaded: sections of keys with the values
  as written; the keys ahead of the first section header are in the section
  \<open>DEFAULT\<close>. \<open>GetKey\<close> is the lookup of a key in a section (the sections of this
  program have no parent section).
\<close>

type_synonym ini_File = "string \<rightharpoonup> (string \<rightharpoonup> string)"

definition GetKey :: "ini_File \<Rightarrow> string \<Rightarrow> string \<Rightarrow> string option" where
  "GetKey f sec name = (case f sec of None \<Rightarrow> None | Some keys \<Rightarrow> keys name)"

text \<open>
  \<open>Key.String()\<close> does not return the value as written: it expands references of
  the form \<open>%(key)s\<close>. \<open>FindString\<close> is the leftmost match of the library's pattern
  (a percent sign, an opening parenthesis, one or more characters other than a closing
  parenthesis, a closing parenthesis and the letter s); \<open>take_name\<close> reads the name
  and the two closing characters after an opening \<open>%(\<close>.
\<close>

definition take_name :: "string \<Rightarrow> (string \<times> string) option" where
  "take_name s =
     (let name = takeWhile (\<lambda>c. c \<noteq> CHR '')'') s;
          rest = dropWhile (\<lambda>c. c \<noteq> CHR '')'') s
      in if name \<noteq> [] \<and> take 2 rest = '')s'' then Some (name, drop 2 rest) else None)"

fun FindString :: "string \<Rightarrow> string option" where
  "FindString [] = None"
| "FindString (c # cs) =
     (if take 2 (c # cs) = ''%(''
      then (case take_name (drop 1 cs) of
              Some (name, rest) \<Rightarrow> Some (''%('' @ name @ '')s'')
            | None \<Rightarrow> FindString cs)
      else FindString cs)"

text \<open>
  \<open>strings.Replace(s, old, new, -1)\<close> for an \<open>old\<close> that is not empty, which a match
  of the pattern never is: every occurrence, from the left, without overlap.
\<close>

function Replace :: "string \<Rightarrow> string \<Rightarrow> string \<Rightarrow> string" where
  "Replace [] old new = []"
| "Replace (c # cs) old new =
     (if old \<noteq> [] \<and> prefix old (c # cs)
      then new @ Replace (drop (length old) (c # cs)) old new
      else c # Replace cs old new)"
  by pat_completeness auto
termination
  by (relation "measure (\<lambda>(s, old, new). length s)") (auto simp: neq_Nil_conv)

text \<open>
  The loop of \<open>Key.transformValue\<close>, for the key \<open>k\<close> of the section \<open>sec\<close>, with the
  number of rounds left: the first reference in the value is looked up in the same
  section, or in the default section when it is not there or is the key itself; all
  its occurrences are replaced by the value of that key as written. The loop ends
  when there is no reference, when the referenced key is nowhere, or after 99 rounds.
\<close>

fun expand :: "nat \<Rightarrow> ini_File \<Rightarrow> string \<Rightarrow> string \<Rightarrow> string \<Rightarrow> string" where
  "expand i f sec k val =
     (if i = 0 then val
      else (case FindString val of
              None \<Rightarrow> val
            | Some vr \<Rightarrow>
                (let noption = take (length vr - 4) (drop 2 vr);
                     same = (if noption = k then None else GetKey f sec noption);
                     nk = (case same of
                             Some v \<Rightarrow> Some v
                           | None \<Rightarrow> GetKey f ''DEFAULT'' noption)
                 in case nk of
                      None \<Rightarrow> val
                    | Some v \<Rightarrow> expand (i - 1) f sec k (Replace val vr v))))"

declare expand.simps [simp del]

definition transformValue :: "ini_File \<Rightarrow> string \<Rightarrow> string \<Rightarrow> string \<Rightarrow> string" where
  "transformValue f sec k val =
     (if CHR ''%'' \<notin> set val then val else expand 99 f sec k val)"

text \<open>
  \<open>Section(sec).Key(k).String()\<close>: the empty string where the section or the key is
  missing, the expanded value otherwise.
\<close>

definition Key_String :: "ini_File \<Rightarrow> string \<Rightarrow> string \<Rightarrow> string" where
  "Key_String config sec k =
     (case config sec of
        None \<Rightarrow> ''''
      | Some keys \<Rightarrow>
          (case keys k of None \<Rightarrow> '''' | Some v \<Rightarrow> transformValue config sec k v))"

datatype call_site = InAddAllFiles | InCommit

text \<open>
  What the libraries and the operating system answer during one run. \<open>parseFlags\<close>
  fills \<open>opts\<close>; \<open>setLogLevel\<close> and \<open>setupLogger\<close> are defined elsewhere in
  the package and only their results matter to \<open>Execute\<close>. \<open>PlainOpen\<close> and
  \<open>Worktree\<close> are called once in \<open>addAllFiles\<close> and once in \<open>commit\<close>, so their
  answers depend on the call site. \<open>walk_root\<close> is the tree \<open>filepath.Walk\<close> finds at a
  path at the moment the files are counted.
\<close>

record env =
  opts :: Options
  parseFlags :: "error option"
  setLogLevel :: "error option"
  setupLogger :: "error option"
  ExpandTilde :: "string \<Rightarrow> error + string"
  ini_Load :: "string \<Rightarrow> error + ini_File"
  PlainOpenWithOptions :: "string \<Rightarrow> error option"
  PlainInit :: "string \<Rightarrow> error option"
  walk_root :: "string \<Rightarrow> node"
  PlainOpen :: "call_site \<Rightarrow> string \<Rightarrow> error option"
  Worktree :: "call_site \<Rightarrow> error option"
  Add :: "string \<Rightarrow> error option"
  Commit :: "string \<Rightarrow> error option"
  now :: nat

section \<open>filepath.Walk\<close>

text \<open>
  \<open>filepath.Walk\<close> calls its function either with the \<open>FileInfo\<close> of an entry and no
  error, or with the error that stopped it at an entry (and the \<open>FileInfo\<close> where
  \<open>lstat\<close> had succeeded). The path it also passes is not read by the function of
  this program and is left out.
\<close>

record FileInfo =
  IsDir :: bool

datatype walk_arg = Visit FileInfo | VisitErr "FileInfo option" error

type_synonym 's WalkFunc = "'s \<Rightarrow> walk_arg \<Rightarrow> 's \<times> error option"

fun lstat_IsDir :: "node \<Rightarrow> bool" where
  "lstat_IsDir (Dir ns) = True"
| "lstat_IsDir (DirUnreadable m) = True"
| "lstat_IsDir n = False"

text \<open>
  Whether the loop over the names of a directory returns the error \<open>e\<close> that the entry
  \<open>n\<close> produced: after a failed \<open>lstat\<close>, unless it is \<open>SkipDir\<close>; after \<open>walk\<close>,
  unless the entry is a directory and the error is \<open>SkipDir\<close>.
\<close>

fun returns_err :: "node \<Rightarrow> error \<Rightarrow> bool" where
  "returns_err (LstatFails m) e = (e \<noteq> SkipDir)"
| "returns_err n e = (\<not> lstat_IsDir n \<or> e \<noteq> SkipDir)"

text \<open>
  \<open>walk\<close> on an entry, preceded by its \<open>lstat\<close>: where \<open>lstat\<close> fails the function is
  called with that error, as both \<open>Walk\<close> (for the root) and the loop of \<open>walk\<close> (for a
  name) do. The state \<open>'s\<close> is what the closure captures and updates.
\<close>

fun walk :: "'s WalkFunc \<Rightarrow> node \<Rightarrow> 's \<Rightarrow> 's \<times> error option"
  and walk_names :: "'s WalkFunc \<Rightarrow> node list \<Rightarrow> 's \<Rightarrow> 's \<times> error option" where
  "walk walkFn File s = walkFn s (Visit \<lparr>IsDir = False\<rparr>)"
| "walk walkFn (LstatFails m) s = walkFn s (VisitErr None (LibError m))"
| "walk walkFn (DirUnreadable m) s = walkFn s (VisitErr (Some \<lparr>IsDir = True\<rparr>) (LibError m))"
| "walk walkFn (Dir names) s =
     (case walkFn s (Visit \<lparr>IsDir = True\<rparr>) of
        (s1, Some err1) \<Rightarrow> (s1, Some err1)
      | (s1, None) \<Rightarrow> walk_names walkFn names s1)"
| "walk_names walkFn [] s = (s, None)"
| "walk_names walkFn (n # names) s =
     (case walk walkFn n s of
        (s1, None) \<Rightarrow> walk_names walkFn names s1
      | (s1, Some err) \<Rightarrow>
          if returns_err n err then (s1, Some err) else walk_names walkFn names s1)"

definition Walk :: "node \<Rightarrow> 's WalkFunc \<Rightarrow> 's \<Rightarrow> 's \<times> error option" where
  "Walk root fn s =
     (case walk fn root s of
        (s1, Some err) \<Rightarrow> if err = SkipDir \<or> err = SkipAll then (s1, None) else (s1, Some err)
      | (s1, None) \<Rightarrow> (s1, None))"

section \<open>The program\<close>

text \<open>The function literal of \<open>countFiles\<close>; its state is the captured \<open>fileCount\<close>.\<close>

definition countFiles_fn :: "int \<Rightarrow> int WalkFunc" where
  "countFiles_fn maxFiles fileCount arg =
     (case arg of
        VisitErr info err \<Rightarrow> (fileCount, Some err)
      | Visit info \<Rightarrow>
          if \<not> IsDir info then
            (let fileCount1 = fileCount + 1 in
             if fileCount1 > maxFiles then
               (fileCount1,
                Some (Errorf (Sprintf maxFilesErrorMessage
                                [string_of_int fileCount1, string_of_int maxFiles])))
             else (fileCount1, None))
          else (fileCount, None))"

definition countFiles :: "env \<Rightarrow> string \<Rightarrow> int \<times> error option" where
  "countFiles e rootDir = Walk (walk_root e rootDir) (countFiles_fn (MaxFiles (opts e))) 0"

definition readGitConfig :: "env \<Rightarrow> string \<Rightarrow> error + ini_File" where
  "readGitConfig e gitConfigPath =
     (case ini_Load e gitConfigPath of Inl err \<Rightarrow> Inl err | Inr cfg \<Rightarrow> Inr cfg)"

definition configureGitUserInfo :: "env \<Rightarrow> (AuthorInfo \<times> error option) outcome" where
  "configureGitUserInfo e =
     (case ExpandTilde e (GitConfig (opts e)) of
        Inl err \<Rightarrow> Panic err
      | Inr gitConfigPath \<Rightarrow>
          (let ai = \<lparr>Name = ''Your Name'', Email = ''your.email@example.com''\<rparr> in
           case readGitConfig e gitConfigPath of
             Inl err \<Rightarrow> Return (\<lparr>Name = '''', Email = ''''\<rparr>, Some err)
           | Inr config \<Rightarrow>
               (let name = Key_String config gitConfigUserSection ''name'';
                    email = Key_String config gitConfigUserSection ''email'';
                    ai1 = (if name \<noteq> '''' then ai\<lparr>Name := name\<rparr> else ai);
                    ai2 = (if email \<noteq> '''' then ai1\<lparr>Email := email\<rparr> else ai1)
                in Return (ai2, None))))"

definition isUnderGitControl :: "env \<Rightarrow> string \<Rightarrow> bool \<times> error option" where
  "isUnderGitControl e rootDir =
     (case PlainOpenWithOptions e rootDir of
        None \<Rightarrow> (True, None)
      | Some err \<Rightarrow>
          if err = ErrRepositoryNotExists \<or> err = ErrWorktreeNotProvided then (False, None)
          else (False, Some (Errorf (Sprintf ''failed to open repository: %v'' [Error err]))))"

definition initializeGitRepository :: "env \<Rightarrow> string \<Rightarrow> state \<Rightarrow> error option \<times> state" where
  "initializeGitRepository e rootDir s =
     (let s1 = s\<lparr>git_ops := git_ops s @ [OpPlainInit rootDir False]\<rparr> in
      case PlainInit e rootDir of
        Some err \<Rightarrow>
          (Some (Errorf (Sprintf ''failed to initialize git repository: %v'' [Error err])), s1)
      | None \<Rightarrow> (None, s1))"

definition addAllFiles :: "env \<Rightarrow> string \<Rightarrow> state \<Rightarrow> error option \<times> state" where
  "addAllFiles e rootDir s =
     (case PlainOpen e InAddAllFiles rootDir of
        Some err \<Rightarrow> (Some (Errorf (Sprintf ''failed to open repository: %v'' [Error err])), s)
      | None \<Rightarrow>
          (case Worktree e InAddAllFiles of
             Some err \<Rightarrow> (Some (Errorf (Sprintf ''failed to get worktree: %v'' [Error err])), s)
           | None \<Rightarrow>
               (let s1 = s\<lparr>git_ops := git_ops s @ [OpAdd rootDir ''.'']\<rparr> in
                case Add e ''.'' of
                  Some err \<Rightarrow>
                    (Some (Errorf (Sprintf ''failed to add all files: %v'' [Error err])), s1)
                | None \<Rightarrow> (None, s1))))"

definition commit :: "env \<Rightarrow> string \<Rightarrow> string \<Rightarrow> state \<Rightarrow> error option \<times> state" where
  "commit e rootDir message s =
     (case PlainOpen e InCommit rootDir of
        Some err \<Rightarrow> (Some (Errorf (Sprintf ''failed to open repository: %v'' [Error err])), s)
      | None \<Rightarrow>
          (case Worktree e InCommit of
             Some err \<Rightarrow> (Some (Errorf (Sprintf ''failed to get worktree: %v'' [Error err])), s)
           | None \<Rightarrow>
               (let author = \<lparr>SigName = Name (authorInfo s), SigEmail = Email (authorInfo s),
                              When = now e\<rparr>;
                    s1 = s\<lparr>git_ops := git_ops s @ [OpCommit rootDir message author]\<rparr>
                in case Commit e message of
                     Some err \<Rightarrow>
                       (Some (Errorf (Sprintf ''failed to commit: %v'' [Error err])), s1)
                   | None \<Rightarrow> (None, s1))))"

definition run :: "env \<Rightarrow> state \<Rightarrow> (error option \<times> state) outcome" where
  "run e s =
     (case configureGitUserInfo e of
        Panic p \<Rightarrow> Panic p
      | Return (ai, cfgErr) \<Rightarrow>
          (let s1 = s\<lparr>authorInfo := ai\<rparr> in
           case cfgErr of
             Some err \<Rightarrow>
               Return (Some (Errorf (Sprintf ''failed to configure git user info: %v''
                                       [Error err])), s1)
           | None \<Rightarrow>
               (case isUnderGitControl e (RootDir (opts e)) of
                  (isUnderGit, Some err) \<Rightarrow>
                    Return (Some (Errorf (Sprintf
                      ''failed to check if directory is under git control: %v'' [Error err])), s1)
                | (isUnderGit, None) \<Rightarrow>
                    if isUnderGit then
                      Return (None, slog_Info ''Directory is already under git control.'' s1)
                    else
                      (let s2 = slog_Info ''Initializing git repository...'' s1 in
                       case initializeGitRepository e (RootDir (opts e)) s2 of
                         (Some err, s3) \<Rightarrow>
                           Return (Some (Errorf (Sprintf
                             ''failed to initialize git repository: %v'' [Error err])), s3)
                       | (None, s3) \<Rightarrow>
                           (case countFiles e (RootDir (opts e)) of
                              (fileCount, Some err) \<Rightarrow>
                                Return (Some (Errorf (Sprintf ''failed to count files: %v''
                                                        [Error err])), s3)
                            | (fileCount, None) \<Rightarrow>
                                if fileCount > MaxFiles (opts e) then
                                  Return (Some (Errorf (Sprintf maxFilesErrorMessage
                                    [string_of_int fileCount,
                                     string_of_int (MaxFiles (opts e))])), s3)
                                else
                                  (case addAllFiles e (RootDir (opts e)) s3 of
                                     (Some err, s4) \<Rightarrow>
                                       Return (Some (Errorf (Sprintf
                                         ''failed to add all files: %v'' [Error err])), s4)
                                   | (None, s4) \<Rightarrow>
                                       (case commit e (RootDir (opts e)) ''Boilerplate'' s4 of
                                          (Some err, s5) \<Rightarrow>
                                            Return (Some (Errorf (Sprintf
                                              ''failed to commit: %v'' [Error err])), s5)
                                        | (None, s5) \<Rightarrow>
                                            Return (None,
                                              slog_Info ''Git initialization successful.''
                                                s5))))))))"

definition Execute :: "env \<Rightarrow> state \<Rightarrow> (int \<times> state) outcome" where
  "Execute e s =
     (case parseFlags e of
        Some err \<Rightarrow> Return (1, s)
      | None \<Rightarrow>
          (case setLogLevel e of
             Some err \<Rightarrow> Return (1, s)
           | None \<Rightarrow>
               (case setupLogger e of
                  Some err \<Rightarrow> Return (1, s)
                | None \<Rightarrow>
                    (case run e s of
                       Panic p \<Rightarrow> Panic p
                     | Return (Some err, s1) \<Rightarrow> Return (1, slog_Error ''run failed'' err s1)
                     | Return (None, s1) \<Rightarrow> Return (0, s1)))))"

section \<open>Vocabulary of the properties\<close>

text \<open>
  The calls a complete walk makes on its function, in order: one per file, one per
  directory before its entries, one per failure (a directory that cannot be listed is
  not entered).
\<close>

datatype visit = VFile | VDir | VFail string

fun entries :: "node \<Rightarrow> visit list" where
  "entries File = [VFile]"
| "entries (Dir names) = VDir # concat (map entries names)"
| "entries (DirUnreadable msg) = [VFail msg]"
| "entries (LstatFails msg) = [VFail msg]"

fun is_failure :: "visit \<Rightarrow> bool" where
  "is_failure (VFail msg) = True"
| "is_failure v = False"

text \<open>The entries met before the first failure, and the number of files in a list.\<close>

definition reached :: "node \<Rightarrow> visit list" where
  "reached t = takeWhile (\<lambda>v. \<not> is_failure v) (entries t)"

definition files_in :: "visit list \<Rightarrow> int" where
  "files_in vs = int (length (filter (\<lambda>v. v = VFile) vs))"

definition first_failure :: "visit list \<Rightarrow> error option" where
  "first_failure vs =
     (case dropWhile (\<lambda>v. \<not> is_failure v) vs of
        VFail msg # rest \<Rightarrow> Some (LibError msg)
      | _ \<Rightarrow> None)"

text \<open>The error of the file-count limit, for a count and a limit.\<close>

definition too_many :: "int \<Rightarrow> int \<Rightarrow> error" where
  "too_many c l = Errorf (Sprintf maxFilesErrorMessage [string_of_int c, string_of_int l])"

text \<open>
  The counting function run over a list of calls from a starting count, stopping at
  the first error: what the walk amounts to once the tree is flattened.
\<close>

fun scan :: "int \<Rightarrow> visit list \<Rightarrow> int \<Rightarrow> int \<times> error option" where
  "scan m [] c = (c, None)"
| "scan m (VDir # vs) c = scan m vs c"
| "scan m (VFile # vs) c =
     (if c + 1 > m then (c + 1, Some (too_many (c + 1) m)) else scan m vs (c + 1))"
| "scan m (VFail msg # vs) c = (c, Some (LibError msg))"

text \<open>
  The state after a run that initialized, staged and committed with the identity
  \<open>ai\<close>, and the state after a run that stopped right after the initialization.
\<close>

definition committed :: "env \<Rightarrow> AuthorInfo \<Rightarrow> state \<Rightarrow> state" where
  "committed e ai s =
     s\<lparr>authorInfo := ai,
       git_ops := git_ops s @
         [OpPlainInit (RootDir (opts e)) False,
          OpAdd (RootDir (opts e)) ''.'',
          OpCommit (RootDir (opts e)) ''Boilerplate''
            \<lparr>SigName = Name ai, SigEmail = Email ai, When = now e\<rparr>],
       logs := logs s @
         [LogInfo ''Initializing git repository...'',
          LogInfo ''Git initialization successful.'']\<rparr>"


subsection \<open>Concrete runs\<close>

definition opts0 :: Options where
  "opts0 = \<lparr>LogFormat = ''text'', Verbose = [], RootDir = ''.'', MaxFiles = 100,
            GitConfig = ''~/.gitconfig'', logLevel = 0\<rparr>"

definition s0 :: state where
  "s0 = \<lparr>authorInfo = \<lparr>Name = '''', Email = ''''\<rparr>, git_ops = [], logs = []\<rparr>"

definition ann_config :: ini_File where
  "ann_config = [''user'' \<mapsto> [''name'' \<mapsto> ''Ann'', ''email'' \<mapsto> ''ann@example.com'']]"

text \<open>
  A directory that is not under version control, holding three files, one of them in
  a subdirectory; every library call succeeds.
\<close>

definition fresh_env :: env where
  "fresh_env =
     \<lparr>opts = opts0, parseFlags = None, setLogLevel = None, setupLogger = None,
      ExpandTilde = (\<lambda>p. Inr ''/home/ann/.gitconfig''),
      ini_Load = (\<lambda>p. Inr ann_config),
      PlainOpenWithOptions = (\<lambda>d. Some ErrRepositoryNotExists),
      PlainInit = (\<lambda>d. None),
      walk_root = (\<lambda>d. Dir [Dir [File, File], File]),
      PlainOpen = (\<lambda>c d. None), Worktree = (\<lambda>c. None),
      Add = (\<lambda>p. None), Commit = (\<lambda>m. None), now = 1700000000\<rparr>"

text \<open>The same directory with a limit of one file, and with a limit of minus five.\<close>

definition small_limit_env :: env where
  "small_limit_env = fresh_env\<lparr>opts := opts0\<lparr>MaxFiles := 1\<rparr>\<rparr>"

definition negative_limit_env :: env where
  "negative_limit_env = fresh_env\<lparr>opts := opts0\<lparr>MaxFiles := - 5\<rparr>\<rparr>"

text \<open>A directory that is under version control.\<close>

definition tracked_env :: env where
  "tracked_env = fresh_env\<lparr>PlainOpenWithOptions := (\<lambda>d. None)\<rparr>"

text \<open>A directory under version control, on a machine with no configuration file.\<close>

definition tracked_no_config_env :: env where
  "tracked_no_config_env =
     tracked_env\<lparr>ini_Load :=
       (\<lambda>p. Inl (LibError ''open /home/ann/.gitconfig: no such file or directory''))\<rparr>"

text \<open>A home directory that cannot be determined.\<close>

definition no_home_env :: env where
  "no_home_env = fresh_env\<lparr>ExpandTilde := (\<lambda>p. Inl (LibError ''$HOME is not defined''))\<rparr>"

text \<open>A repository that exists and cannot be opened.\<close>

definition broken_repo_env :: env where
  "broken_repo_env =
     fresh_env\<lparr>PlainOpenWithOptions := (\<lambda>d. Some (LibError ''permission denied''))\<rparr>"




text \<open>A command line with a flag that does not exist.\<close>

definition bad_flags_env :: env where
  "bad_flags_env = fresh_env\<lparr>parseFlags := Some (LibError ''unknown flag: x'')\<rparr>"

section \<open>The walk as a scan of its calls\<close>

lemma scan_append:
  "scan m (xs @ ys) c =
     (case scan m xs c of (c1, None) \<Rightarrow> scan m ys c1 | (c1, Some e) \<Rightarrow> (c1, Some e))"
  by (induction m xs c rule: scan.induct) auto

lemma scan_not_skip: "scan m vs c = (c1, Some e) \<Longrightarrow> e \<noteq> SkipDir \<and> e \<noteq> SkipAll"
  by (induction m vs c rule: scan.induct) (auto simp: too_many_def split: if_splits)

lemma walk_scan:
  "walk (countFiles_fn m) n c = scan m (entries n) c"
  "walk_names (countFiles_fn m) ns c = scan m (concat (map entries ns)) c"
proof (induction "countFiles_fn m" n c and "countFiles_fn m" ns c rule: walk_walk_names.induct)
  case (1 s)
  then show ?case by (simp add: countFiles_fn_def too_many_def Let_def)
next
  case (2 msg s)
  then show ?case by (simp add: countFiles_fn_def)
next
  case (3 msg s)
  then show ?case by (simp add: countFiles_fn_def)
next
  case (4 names s)
  then show ?case by (simp add: countFiles_fn_def)
next
  case (5 s)
  then show ?case by simp
next
  case (6 n names s)
  show ?case
  proof (cases "scan m (entries n) s")
    case (Pair c1 r)
    show ?thesis
    proof (cases r)
      case None
      with Pair 6 show ?thesis by (simp add: scan_append)
    next
      case (Some err)
      with Pair scan_not_skip[of m "entries n" s c1 err] have "returns_err n err"
        by (cases n) auto
      with Pair Some 6 show ?thesis by (simp add: scan_append)
    qed
  qed
qed

lemma Walk_scan: "Walk t (countFiles_fn m) c = scan m (entries t) c"
proof (cases "scan m (entries t) c")
  case (Pair c1 r)
  then show ?thesis
    using scan_not_skip[of m "entries t" c c1]
    by (cases r) (auto simp: Walk_def walk_scan)
qed

text \<open>
  The scan in closed form: with \<open>k\<close> files ahead of the first failure, the limit is
  passed when there is a file and \<open>c + k\<close> exceeds it, and the scan then stops one
  above the limit (or one above the starting count, when that is already higher).
\<close>

lemma scan_closed:
  "scan m vs c =
     (let k = files_in (takeWhile (\<lambda>v. \<not> is_failure v) vs) in
      if 1 \<le> k \<and> m < c + k
      then (max (m + 1) (c + 1), Some (too_many (max (m + 1) (c + 1)) m))
      else (c + k, first_failure vs))"
proof (induction m vs c rule: scan.induct)
  case (1 m c)
  then show ?case by (simp add: files_in_def first_failure_def)
next
  case (2 m vs c)
  then show ?case by (simp add: files_in_def first_failure_def Let_def)
next
  case (3 m vs c)
  show ?case
  proof (cases "c + 1 > m")
    case True
    then have "max (m + 1) (c + 1) = c + 1" by simp
    with True show ?thesis by (simp add: files_in_def Let_def)
  next
    case False
    then have mx: "max (m + 1) (c + 1) = m + 1" "max (m + 1) (c + 1 + 1) = m + 1" by simp_all
    from False 3 show ?thesis
      by (auto simp add: files_in_def Let_def first_failure_def mx)
  qed
next
  case (4 m msg vs c)
  then show ?case by (simp add: files_in_def first_failure_def)
qed

lemma countFiles_closed:
  "countFiles e root =
     (let m = MaxFiles (opts e); k = files_in (reached (walk_root e root)) in
      if 1 \<le> k \<and> m < k then (max m 0 + 1, Some (too_many (max m 0 + 1) m))
      else (k, first_failure (entries (walk_root e root))))"
proof -
  have "max (m + 1) (0 + 1) = max m 0 + 1" for m :: int by simp
  then show ?thesis
    by (simp add: countFiles_def Walk_scan scan_closed reached_def Let_def)
qed


section \<open>The repository state checker\<close>

text \<open>
  C4. For every directory path \<open>isUnderGitControl\<close> has three outcomes: where opening
  the repository (searching the parent directories) succeeds it returns true and no
  error; where opening fails with the error "repository does not exist" or the error
  "no worktree" it returns false and no error; for any other failure it returns false
  and an error that carries the failure.
\<close>

theorem isUnderGitControl_three_outcomes:
  "(PlainOpenWithOptions e rootDir = None \<longrightarrow> isUnderGitControl e rootDir = (True, None)) \<and>
   (PlainOpenWithOptions e rootDir = Some ErrRepositoryNotExists \<or>
    PlainOpenWithOptions e rootDir = Some ErrWorktreeNotProvided \<longrightarrow>
      isUnderGitControl e rootDir = (False, None)) \<and>
   (\<forall>err. PlainOpenWithOptions e rootDir = Some err \<and> err \<noteq> ErrRepositoryNotExists \<and>
      err \<noteq> ErrWorktreeNotProvided \<longrightarrow>
      isUnderGitControl e rootDir =
        (False, Some (Errorf (''failed to open repository: '' @ Error err))))"
  by (auto simp: isUnderGitControl_def)

theorem isUnderGitControl_three_outcomes_witness:
  "isUnderGitControl tracked_env ''.'' = (True, None) \<and>
   isUnderGitControl fresh_env ''.'' = (False, None) \<and>
   isUnderGitControl broken_repo_env ''.'' =
     (False, Some (Errorf ''failed to open repository: permission denied''))"
  using isUnderGitControl_three_outcomes [of tracked_env "''.''"]
    isUnderGitControl_three_outcomes [of fresh_env "''.''"]
    isUnderGitControl_three_outcomes [of broken_repo_env "''.''"]
  by (simp add: tracked_env_def fresh_env_def broken_repo_env_def)

section \<open>The config loader\<close>




text \<open>
  C8. Where the expansion of the home-directory shorthand fails, the config loader
  panics with that error instead of returning an error, and this is the only case in
  which \<open>configureGitUserInfo\<close> does not return.
\<close>

theorem configureGitUserInfo_panic:
  "(configureGitUserInfo e = Panic p) = (ExpandTilde e (GitConfig (opts e)) = Inl p)"
  by (auto simp: configureGitUserInfo_def readGitConfig_def Let_def split: sum.splits)

theorem configureGitUserInfo_panic_witness:
  "configureGitUserInfo no_home_env = Panic (LibError ''$HOME is not defined'')"
  using configureGitUserInfo_panic [of no_home_env "LibError ''$HOME is not defined''"]
  by (simp add: no_home_env_def)

text \<open>
  C9. Where the configuration file cannot be read, \<open>configureGitUserInfo\<close> returns
  the zero \<open>AuthorInfo\<close> (empty name, empty email) together with the error, not the
  defaults.
\<close>

theorem configureGitUserInfo_unreadable:
  assumes "ExpandTilde e (GitConfig (opts e)) = Inr path"
    and "ini_Load e path = Inl err"
  shows "configureGitUserInfo e = Return (\<lparr>Name = '''', Email = ''''\<rparr>, Some err)"
  using assms by (simp add: configureGitUserInfo_def readGitConfig_def)

theorem configureGitUserInfo_unreadable_witness:
  "configureGitUserInfo tracked_no_config_env =
     Return (\<lparr>Name = '''', Email = ''''\<rparr>,
             Some (LibError ''open /home/ann/.gitconfig: no such file or directory''))"
proof -
  have h1: "ExpandTilde tracked_no_config_env (GitConfig (opts tracked_no_config_env)) =
              Inr ''/home/ann/.gitconfig''"
    by (simp add: tracked_no_config_env_def tracked_env_def fresh_env_def)
  have h2: "ini_Load tracked_no_config_env ''/home/ann/.gitconfig'' =
              Inl (LibError ''open /home/ann/.gitconfig: no such file or directory'')"
    by (simp add: tracked_no_config_env_def)
  from configureGitUserInfo_unreadable [OF h1 h2] show ?thesis .
qed

section \<open>Exit codes\<close>

text \<open>
  C7. \<open>Execute\<close> returns 0 exactly when the flags parse, the log is set up and
  \<open>run\<close> returns no error (a run that succeeds, or one that finds the directory
  tracked); it returns 1 on a flag parse error, a log setup error or an error of
  \<open>run\<close>, and the error of \<open>run\<close> is logged. It returns no other code.
\<close>

theorem Execute_exit_codes:
  "(Execute e s = Return (0, s1) \<longleftrightarrow>
      parseFlags e = None \<and> setLogLevel e = None \<and> setupLogger e = None \<and>
      run e s = Return (None, s1)) \<and>
   (parseFlags e \<noteq> None \<or> setLogLevel e \<noteq> None \<or> setupLogger e \<noteq> None \<longrightarrow>
      Execute e s = Return (1, s)) \<and>
   (parseFlags e = None \<and> setLogLevel e = None \<and> setupLogger e = None \<and>
      run e s = Return (Some err, s2) \<longrightarrow>
      Execute e s = Return (1, s2\<lparr>logs := logs s2 @ [LogError ''run failed'' err]\<rparr>)) \<and>
   (\<forall>code s3. Execute e s = Return (code, s3) \<longrightarrow> code = 0 \<or> code = 1)"
  by (auto simp: Execute_def slog_Error_def split: option.splits outcome.splits)

theorem Execute_exit_codes_witness:
  "Execute tracked_env s0 =
     Return (0, \<lparr>authorInfo = \<lparr>Name = ''Ann'', Email = ''ann@example.com''\<rparr>, git_ops = [],
                 logs = [LogInfo ''Directory is already under git control.'']\<rparr>) \<and>
   Execute bad_flags_env s0 = Return (1, s0)"
proof -
  let ?s = "\<lparr>authorInfo = \<lparr>Name = ''Ann'', Email = ''ann@example.com''\<rparr>, git_ops = [],
             logs = [LogInfo ''Directory is already under git control.'']\<rparr>"
  have c: "configureGitUserInfo tracked_env =
             Return (\<lparr>Name = ''Ann'', Email = ''ann@example.com''\<rparr>, None)"
    by (simp add: configureGitUserInfo_def readGitConfig_def tracked_env_def fresh_env_def
        ann_config_def gitConfigUserSection_def Key_String_def transformValue_def)
  have u: "isUnderGitControl tracked_env (RootDir (opts tracked_env)) = (True, None)"
    by (simp add: isUnderGitControl_def tracked_env_def)
  have r: "run tracked_env s0 = Return (None, ?s)"
    by (simp add: run_def c u slog_Info_def s0_def)
  have f: "parseFlags tracked_env = None" "setLogLevel tracked_env = None"
    "setupLogger tracked_env = None"
    by (simp_all add: tracked_env_def fresh_env_def)
  have b: "parseFlags bad_flags_env \<noteq> None"
    by (simp add: bad_flags_env_def)
  from Execute_exit_codes [of tracked_env s0 ?s] r f
  have 1: "Execute tracked_env s0 = Return (0, ?s)" by simp
  from Execute_exit_codes [of bad_flags_env s0] b
  have 2: "Execute bad_flags_env s0 = Return (1, s0)" by simp
  from 1 2 show ?thesis by simp
qed

section \<open>The file counter\<close>

text \<open>
  C2, as amended. For every directory tree and every limit, \<open>countFiles\<close> is
  determined by the entries the walk meets before its first failure. Let \<open>k\<close> be the
  number of files among them. If there is such a file and \<open>k\<close> exceeds the limit, the
  walk stops at the file that takes the counter above the limit and returns that
  count with the limit error: the limit plus one for a limit of zero or more, one for
  a negative limit. Otherwise the count is \<open>k\<close>, one for each file visited, and the
  error is the first failure of the walk, or none where the walk is complete.
\<close>

theorem countFiles_count_and_error:
  "countFiles e root =
     (let m = MaxFiles (opts e); k = files_in (reached (walk_root e root)) in
      if 1 \<le> k \<and> m < k then (max m 0 + 1, Some (too_many (max m 0 + 1) m))
      else (k, first_failure (entries (walk_root e root))))"
  by (rule countFiles_closed)

theorem countFiles_count_and_error_witness:
  "countFiles small_limit_env ''.'' = (2, Some (Errorf ''too many files (2), limit is 1'')) \<and>
   countFiles fresh_env ''.'' = (3, None)"
  using countFiles_count_and_error [of small_limit_env "''.''"]
    countFiles_count_and_error [of fresh_env "''.''"]
  by (simp add: small_limit_env_def fresh_env_def opts0_def reached_def files_in_def
      first_failure_def too_many_def maxFilesErrorMessage_def string_of_int_def
      string_of_nat.simps)

text \<open>
  C2 as stated fails for a negative limit: with a limit of minus five the walk stops
  at the first file with a count of one, which is not the limit plus one.
\<close>

theorem countFiles_negative_limit_counterexample:
  "countFiles negative_limit_env ''.'' =
     (1, Some (Errorf ''too many files (1), limit is -5'')) \<and>
   fst (countFiles negative_limit_env ''.'') \<noteq> MaxFiles (opts negative_limit_env) + 1"
  by (simp add: countFiles_closed negative_limit_env_def fresh_env_def opts0_def reached_def
      files_in_def too_many_def maxFilesErrorMessage_def string_of_int_def
      string_of_nat.simps)




section \<open>The orchestrator\<close>

text \<open>
  C1. On a directory that is not under version control, \<open>run\<close> returns no error
  exactly when the identity is resolved, the initialization succeeds, the walk counts
  at most \<open>max-files\<close> files without an error, and the staging and the commit
  succeed; the run has then initialized a repository, staged all paths and made one
  commit, in this order and nothing else, and the author of the commit is the identity
  the config loader resolved.
\<close>

theorem run_fresh_directory:
  assumes "isUnderGitControl e (RootDir (opts e)) = (False, None)"
  shows "run e s = Return (None, s1) \<longleftrightarrow>
           (\<exists>ai. configureGitUserInfo e = Return (ai, None) \<and>
              PlainInit e (RootDir (opts e)) = None \<and>
              snd (countFiles e (RootDir (opts e))) = None \<and>
              fst (countFiles e (RootDir (opts e))) \<le> MaxFiles (opts e) \<and>
              PlainOpen e InAddAllFiles (RootDir (opts e)) = None \<and>
              Worktree e InAddAllFiles = None \<and> Add e ''.'' = None \<and>
              PlainOpen e InCommit (RootDir (opts e)) = None \<and>
              Worktree e InCommit = None \<and> Commit e ''Boilerplate'' = None \<and>
              s1 = committed e ai s)"
  using assms
  by (auto simp: run_def initializeGitRepository_def addAllFiles_def commit_def slog_Info_def
      committed_def Let_def
      split: outcome.splits option.splits prod.splits)

theorem run_fresh_directory_witness:
  "run fresh_env s0 =
     Return (None,
       \<lparr>authorInfo = \<lparr>Name = ''Ann'', Email = ''ann@example.com''\<rparr>,
        git_ops = [OpPlainInit ''.'' False, OpAdd ''.'' ''.'',
                   OpCommit ''.'' ''Boilerplate''
                     \<lparr>SigName = ''Ann'', SigEmail = ''ann@example.com'', When = 1700000000\<rparr>],
        logs = [LogInfo ''Initializing git repository...'',
                LogInfo ''Git initialization successful.'']\<rparr>)"
proof -
  let ?ann = "\<lparr>Name = ''Ann'', Email = ''ann@example.com''\<rparr>"
  have h: "isUnderGitControl fresh_env (RootDir (opts fresh_env)) = (False, None)"
    by (simp add: isUnderGitControl_def fresh_env_def)
  have c: "configureGitUserInfo fresh_env = Return (?ann, None)"
    by (simp add: configureGitUserInfo_def readGitConfig_def fresh_env_def ann_config_def
        gitConfigUserSection_def Key_String_def transformValue_def)
  have n: "countFiles fresh_env (RootDir (opts fresh_env)) = (3, None)"
    by (simp add: countFiles_closed fresh_env_def opts0_def reached_def files_in_def
        first_failure_def)
  have l: "PlainInit fresh_env (RootDir (opts fresh_env)) = None"
    "PlainOpen fresh_env InAddAllFiles (RootDir (opts fresh_env)) = None"
    "Worktree fresh_env InAddAllFiles = None" "Add fresh_env ''.'' = None"
    "PlainOpen fresh_env InCommit (RootDir (opts fresh_env)) = None"
    "Worktree fresh_env InCommit = None" "Commit fresh_env ''Boilerplate'' = None"
    "MaxFiles (opts fresh_env) = 100"
    by (simp_all add: fresh_env_def opts0_def)
  have r: "run fresh_env s0 = Return (None, committed fresh_env ?ann s0)"
    using run_fresh_directory [OF h, of s0 "committed fresh_env ?ann s0"] c n l by simp
  have "committed fresh_env ?ann s0 =
     \<lparr>authorInfo = ?ann,
      git_ops = [OpPlainInit ''.'' False, OpAdd ''.'' ''.'',
                 OpCommit ''.'' ''Boilerplate''
                   \<lparr>SigName = ''Ann'', SigEmail = ''ann@example.com'', When = 1700000000\<rparr>],
      logs = [LogInfo ''Initializing git repository...'',
              LogInfo ''Git initialization successful.'']\<rparr>"
    by (simp add: committed_def s0_def fresh_env_def opts0_def)
  with r show ?thesis by simp
qed




text \<open>
  A run on a tracked directory leaves the repository alone, and \<open>Execute\<close> adds
  nothing but a log record to what \<open>run\<close> did.
\<close>

lemma run_tracked_ops:
  assumes "isUnderGitControl e (RootDir (opts e)) = (True, None)"
    and "run e s = Return (r, s1)"
  shows "git_ops s1 = git_ops s"
proof (cases "configureGitUserInfo e")
  case (Panic p)
  with assms(2) show ?thesis by (simp add: run_def)
next
  case (Return res)
  obtain ai cfgErr where res: "res = (ai, cfgErr)" by (cases res)
  show ?thesis
  proof (cases cfgErr)
    case None
    with assms Return res
    have "s1 = slog_Info ''Directory is already under git control.'' (s\<lparr>authorInfo := ai\<rparr>)"
      by (simp add: run_def)
    then show ?thesis by (simp add: slog_Info_def)
  next
    case (Some err)
    with assms(2) Return res have "s1 = s\<lparr>authorInfo := ai\<rparr>"
      by (simp add: run_def)
    then show ?thesis by simp
  qed
qed

lemma Execute_ops:
  assumes "Execute e s = Return (code, s1)"
  shows "s1 = s \<or> (\<exists>r s2. run e s = Return (r, s2) \<and> git_ops s1 = git_ops s2)"
proof (cases "parseFlags e = None \<and> setLogLevel e = None \<and> setupLogger e = None")
  case False
  then have "Execute e s = Return (1, s)"
    by (auto simp: Execute_def split: option.splits)
  with assms show ?thesis by simp
next
  case True
  show ?thesis
  proof (cases "run e s")
    case (Panic p)
    with True assms show ?thesis by (simp add: Execute_def)
  next
    case (Return res)
    obtain r s2 where res: "res = (r, s2)" by (cases res)
    have "git_ops s1 = git_ops s2"
    proof (cases r)
      case None
      with True Return res assms show ?thesis by (simp add: Execute_def)
    next
      case (Some err)
      with True Return res assms have "s1 = slog_Error ''run failed'' err s2"
        by (simp add: Execute_def)
      then show ?thesis by (simp add: slog_Error_def)
    qed
    with Return res show ?thesis by blast
  qed
qed

text \<open>
  C6, as amended. On a directory that is under version control no run initializes,
  stages or commits, whatever else happens, and this holds from any state, so also
  for a second run after a first. The exit code is 0 where the flags parse, the log is
  set up and the configuration file is read.
\<close>

theorem run_tracked_directory:
  assumes "PlainOpenWithOptions e (RootDir (opts e)) = None"
  shows "(\<forall>code s1. Execute e s = Return (code, s1) \<longrightarrow> git_ops s1 = git_ops s) \<and>
         (\<forall>ai. parseFlags e = None \<and> setLogLevel e = None \<and> setupLogger e = None \<and>
            configureGitUserInfo e = Return (ai, None) \<longrightarrow>
            Execute e s =
              Return (0, s\<lparr>authorInfo := ai,
                           logs := logs s @ [LogInfo ''Directory is already under git control.'']\<rparr>))"
proof -
  have tracked: "isUnderGitControl e (RootDir (opts e)) = (True, None)"
    using assms by (simp add: isUnderGitControl_def)
  have part1: "git_ops s1 = git_ops s" if "Execute e s = Return (code, s1)" for code s1
    using Execute_ops [OF that] run_tracked_ops [OF tracked] by metis
  have part2: "Execute e s =
              Return (0, s\<lparr>authorInfo := ai,
                           logs := logs s @ [LogInfo ''Directory is already under git control.'']\<rparr>)"
    if "parseFlags e = None" "setLogLevel e = None" "setupLogger e = None"
      "configureGitUserInfo e = Return (ai, None)" for ai
    using that tracked by (simp add: Execute_def run_def slog_Info_def)
  from part1 part2 show ?thesis by blast
qed

theorem run_tracked_directory_witness:
  "Execute tracked_env s0 =
     Return (0, \<lparr>authorInfo = \<lparr>Name = ''Ann'', Email = ''ann@example.com''\<rparr>, git_ops = [],
                 logs = [LogInfo ''Directory is already under git control.'']\<rparr>)"
proof -
  have h: "PlainOpenWithOptions tracked_env (RootDir (opts tracked_env)) = None"
    by (simp add: tracked_env_def)
  have c: "configureGitUserInfo tracked_env =
             Return (\<lparr>Name = ''Ann'', Email = ''ann@example.com''\<rparr>, None)"
    by (simp add: configureGitUserInfo_def readGitConfig_def tracked_env_def fresh_env_def
        ann_config_def gitConfigUserSection_def Key_String_def transformValue_def)
  have f: "parseFlags tracked_env = None" "setLogLevel tracked_env = None"
    "setupLogger tracked_env = None"
    by (simp_all add: tracked_env_def fresh_env_def)
  from run_tracked_directory [OF h, of s0] c f show ?thesis
    by (simp add: s0_def)
qed

text \<open>
  C6 as stated fails for the exit code: on a tracked directory, with no configuration
  file to read, \<open>Execute\<close> returns 1.
\<close>

theorem tracked_directory_exit_code_counterexample:
  "PlainOpenWithOptions tracked_no_config_env (RootDir (opts tracked_no_config_env)) = None \<and>
   Execute tracked_no_config_env s0 =
     Return (1, s0\<lparr>logs :=
       [LogError ''run failed''
          (Errorf (''failed to configure git user info: '' @
                   ''open /home/ann/.gitconfig: no such file or directory''))]\<rparr>)"
  by (simp add: Execute_def run_def configureGitUserInfo_def readGitConfig_def
      tracked_no_config_env_def tracked_env_def fresh_env_def s0_def slog_Error_def)

end
